theory Spec2Isabelle
  imports Complex_Main
begin

section \<open>Python arithmetic on real numbers\<close>

text \<open>
  The solver of \<^verbatim>\<open>planner_core.py\<close> computes on Python floats. Floats are read here
  as real numbers: rounding and overflow of the binary format are outside the model.
  What Python raises on real arguments is kept: a division by zero is the value
  \<open>Inl ZeroDivisionError\<close>, and so is a zero base under a negative exponent.
\<close>

datatype error =
    ValueError          \<comment> \<open>\<^verbatim>\<open>raise ValueError("Exactly one of (Ti, Mi, I) must be None.")\<close>\<close>
  | RuntimeError        \<comment> \<open>\<^verbatim>\<open>raise RuntimeError("Goal unreachable within search_cap_years.")\<close>\<close>
  | ZeroDivisionError   \<comment> \<open>float division by zero, and \<^verbatim>\<open>0.0 ** y\<close> for negative \<open>y\<close>\<close>
  | TypeError           \<comment> \<open>arithmetic on \<^verbatim>\<open>None\<close>\<close>
  | ComplexPower        \<comment> \<open>a negative base under a fractional exponent: Python goes on
                            with a complex number, which the model does not follow\<close>

definition bind_res :: "error + 'a \<Rightarrow> ('a \<Rightarrow> error + 'b) \<Rightarrow> error + 'b" where
  "bind_res m f = (case m of Inl e \<Rightarrow> Inl e | Inr v \<Rightarrow> f v)"

text \<open>\<^verbatim>\<open>x / y\<close> on floats.\<close>

definition py_div :: "real \<Rightarrow> real \<Rightarrow> error + real" where
  "py_div x y = (if y = 0 then Inl ZeroDivisionError else Inr (x / y))"

text \<open>\<^verbatim>\<open>x ** n\<close> for a float \<open>x\<close> and an int \<open>n\<close>.\<close>

definition py_pow_int :: "real \<Rightarrow> int \<Rightarrow> error + real" where
  "py_pow_int x n =
     (if 0 \<le> n then Inr (x ^ nat n)
      else if x = 0 then Inl ZeroDivisionError
      else Inr (1 / x ^ nat (- n)))"

text \<open>\<^verbatim>\<open>x ** y\<close> for floats \<open>x\<close> and \<open>y\<close>.\<close>

definition py_pow :: "real \<Rightarrow> real \<Rightarrow> error + real" where
  "py_pow x y =
     (if 0 < x then Inr (x powr y)
      else if y = of_int \<lfloor>y\<rfloor> then py_pow_int x \<lfloor>y\<rfloor>
      else if x = 0 then (if y < 0 then Inl ZeroDivisionError else Inr 0)
      else Inl ComplexPower)"

text \<open>\<^verbatim>\<open>int(round(x))\<close>: Python rounds a half to the even neighbour.\<close>

definition py_round :: "real \<Rightarrow> int" where
  "py_round x =
     (let f = \<lfloor>x\<rfloor>; d = x - of_int f in
      if d < 1 / 2 then f
      else if 1 / 2 < d then f + 1
      else if even f then f else f + 1)"

section \<open>The engines\<close>

text \<open>\<^verbatim>\<open>_gross_monthly\<close>: \<^verbatim>\<open>(1 + r_annual) ** (1 / 12) - 1\<close>.\<close>

definition gross_monthly :: "real \<Rightarrow> error + real" where
  "gross_monthly r_annual =
     bind_res (py_pow (1 + r_annual) (1 / 12)) (\<lambda>p. Inr (p - 1))"

text \<open>
  \<^verbatim>\<open>_fv_before_tax\<close>. The conditional expression of the source is the whole right-hand
  side of \<^verbatim>\<open>fv +=\<close>; the power is evaluated once for the lump sum and once more inside
  the annuity term.
\<close>

definition fv_before_tax :: "real \<Rightarrow> real \<Rightarrow> real \<Rightarrow> int \<Rightarrow> error + real" where
  "fv_before_tax L M r n =
     bind_res (py_pow_int (1 + r) n) (\<lambda>p.
       let fv = L * p in
       if \<bar>r\<bar> > 1 / 10 ^ 12
       then bind_res (py_pow_int (1 + r) n) (\<lambda>p'.
              bind_res (py_div (M * (p' - 1)) r) (\<lambda>q. Inr (fv + q)))
       else Inr (fv + M * of_int n))"

text \<open>\<^verbatim>\<open>_corpus_after_tax\<close>.\<close>

definition corpus_after_tax :: "real \<Rightarrow> real \<Rightarrow> real \<Rightarrow> int \<Rightarrow> real \<Rightarrow> error + real" where
  "corpus_after_tax L M r n tax =
     bind_res (fv_before_tax L M r n) (\<lambda>fv_bt.
       let gains = fv_bt - (L + M * of_int n) in
       Inr (fv_bt - max gains 0 * tax))"

text \<open>\<^verbatim>\<open>_corpus_needed_for_swp\<close>.\<close>

definition corpus_needed_for_swp :: "real \<Rightarrow> real \<Rightarrow> real \<Rightarrow> real \<Rightarrow> real \<Rightarrow> error + real" where
  "corpus_needed_for_swp A_today Ti Tw infl r_month =
     bind_res (py_pow (1 + infl) (1 / 12)) (\<lambda>p.
       let g = p - 1; M = py_round (Tw * 12) in
       bind_res (py_pow (1 + infl) Ti) (\<lambda>q.
         let W0 = A_today * q in
         if \<bar>r_month - g\<bar> < 1 / 10 ^ 12
         then py_div (W0 * of_int M) (1 + r_month)
         else bind_res (py_div (1 + g) (1 + r_month)) (\<lambda>k.
                bind_res (py_pow_int k M) (\<lambda>kM.
                  py_div (W0 * (1 - kM)) (r_month - g)))))"

section \<open>The public solver\<close>

text \<open>
  The dictionary \<^verbatim>\<open>dict(I=..., Mi=..., Ti=..., corpus_at_retirement=...)\<close> that
  \<^verbatim>\<open>solve_swp\<close> returns. The first three fields carry a prefix, since \<open>I\<close>, \<open>Mi\<close>
  and \<open>Ti\<close> name the arguments.
\<close>

record swp_result =
  res_I :: real
  res_Mi :: real
  res_Ti :: real
  corpus_at_retirement :: real

text \<open>
  The linear solve shared, line for line, by the branches \<^verbatim>\<open># Unknown I\<close> and
  \<^verbatim>\<open># Unknown Mi\<close>: it returns the pair \<open>(A_L, A_M)\<close> together with \<open>Cn\<close>.
\<close>

definition coefficients ::
  "real \<Rightarrow> real \<Rightarrow> real \<Rightarrow> real \<Rightarrow> real \<Rightarrow> real \<Rightarrow> error + (real \<times> real \<times> real)" where
  "coefficients A_today Tw inflation_rate tax_rate r Ti =
     (let n = py_round (Ti * 12) in
      bind_res (corpus_needed_for_swp A_today Ti Tw inflation_rate r) (\<lambda>Cn.
        bind_res (py_pow_int (1 + r) n) (\<lambda>growth.
          bind_res (if \<bar>r\<bar> > 1 / 10 ^ 12 then py_div (growth - 1) r else Inr (of_int n))
            (\<lambda>annuity.
               let A_L = (1 - tax_rate) * growth + tax_rate;
                   A_M = (1 - tax_rate) * annuity + tax_rate * of_int n
               in Inr (Cn, A_L, A_M)))))"

text \<open>\<^verbatim>\<open># Unknown I\<close>: \<^verbatim>\<open>I = (Cn - A_M * Mi) / A_L\<close>.\<close>

definition unknown_I ::
  "real \<Rightarrow> real \<Rightarrow> real \<Rightarrow> real \<Rightarrow> real \<Rightarrow> real \<Rightarrow> real \<Rightarrow> error + real" where
  "unknown_I A_today Tw inflation_rate tax_rate r Ti Mi =
     bind_res (coefficients A_today Tw inflation_rate tax_rate r Ti) (\<lambda>(Cn, A_L, A_M).
       py_div (Cn - A_M * Mi) A_L)"

text \<open>\<^verbatim>\<open># Unknown Mi\<close>: \<^verbatim>\<open>Mi = (Cn - A_L * I) / A_M\<close>.\<close>

definition unknown_Mi ::
  "real \<Rightarrow> real \<Rightarrow> real \<Rightarrow> real \<Rightarrow> real \<Rightarrow> real \<Rightarrow> real \<Rightarrow> error + real" where
  "unknown_Mi A_today Tw inflation_rate tax_rate r Ti I =
     bind_res (coefficients A_today Tw inflation_rate tax_rate r Ti) (\<lambda>(Cn, A_L, A_M).
       py_div (Cn - A_L * I) A_M)"

text \<open>
  \<^verbatim>\<open># Unknown Ti\<close>: the \<^verbatim>\<open>while months <= search_cap_years * 12\<close> loop, entered
  with \<open>months = 0\<close>. It returns \<open>yrs_now\<close> at the \<^verbatim>\<open>break\<close>; the \<^verbatim>\<open>else\<close> clause
  of the loop raises.
\<close>

function unknown_Ti ::
  "real \<Rightarrow> real \<Rightarrow> real \<Rightarrow> real \<Rightarrow> real \<Rightarrow> real \<Rightarrow> real \<Rightarrow> int \<Rightarrow> int \<Rightarrow> error + real" where
  "unknown_Ti A_today Tw inflation_rate tax_rate r I Mi search_cap_years months =
     (if months \<le> search_cap_years * 12 then
        let yrs_now = of_int months / 12 in
        case corpus_needed_for_swp A_today yrs_now Tw inflation_rate r of
          Inl e \<Rightarrow> Inl e
        | Inr Cneed \<Rightarrow>
            (case corpus_after_tax I Mi r months tax_rate of
               Inl e \<Rightarrow> Inl e
             | Inr Chave \<Rightarrow>
                 if Chave \<ge> Cneed then Inr yrs_now
                 else unknown_Ti A_today Tw inflation_rate tax_rate r I Mi
                        search_cap_years (months + 1))
      else Inl RuntimeError)"
  by pat_completeness auto
termination
  by (relation "measure (\<lambda>(A_today, Tw, inflation_rate, tax_rate, r, I, Mi, search_cap_years, months).
        nat (search_cap_years * 12 + 1 - months))") auto

text \<open>
  The number of times the loop body runs from \<open>months\<close> on: the same guards as
  \<^const>\<open>unknown_Ti\<close>, counting one for each pass.
\<close>

function unknown_Ti_passes ::
  "real \<Rightarrow> real \<Rightarrow> real \<Rightarrow> real \<Rightarrow> real \<Rightarrow> real \<Rightarrow> real \<Rightarrow> int \<Rightarrow> int \<Rightarrow> nat" where
  "unknown_Ti_passes A_today Tw inflation_rate tax_rate r I Mi search_cap_years months =
     (if months \<le> search_cap_years * 12 then
        let yrs_now = of_int months / 12 in
        case corpus_needed_for_swp A_today yrs_now Tw inflation_rate r of
          Inl e \<Rightarrow> 1
        | Inr Cneed \<Rightarrow>
            (case corpus_after_tax I Mi r months tax_rate of
               Inl e \<Rightarrow> 1
             | Inr Chave \<Rightarrow>
                 if Chave \<ge> Cneed then 1
                 else 1 + unknown_Ti_passes A_today Tw inflation_rate tax_rate r I Mi
                            search_cap_years (months + 1))
      else 0)"
  by pat_completeness auto
termination
  by (relation "measure (\<lambda>(A_today, Tw, inflation_rate, tax_rate, r, I, Mi, search_cap_years, months).
        nat (search_cap_years * 12 + 1 - months))") auto

text \<open>
  \<^verbatim>\<open>solve_swp\<close>. An unset argument is \<open>None\<close>. After the count check exactly one of
  the three is \<open>None\<close>, so the \<open>TypeError\<close> cases (arithmetic on \<^verbatim>\<open>None\<close>) are never
  reached; they stand where Python would raise if they were.
\<close>

definition solve_swp ::
  "real \<Rightarrow> real \<Rightarrow> real \<Rightarrow> real \<Rightarrow> real \<Rightarrow> real option \<Rightarrow> real option \<Rightarrow> real option \<Rightarrow> int
     \<Rightarrow> error + swp_result" where
  "solve_swp A_today Tw inflation_rate annual_return tax_rate Ti Mi I search_cap_years =
     (if count_list [Ti, Mi, I] None \<noteq> 1 then Inl ValueError
      else
        bind_res (gross_monthly annual_return) (\<lambda>r.
          bind_res
            (case I of
               None \<Rightarrow>
                 (case (Ti, Mi) of
                    (Some ti, Some mi) \<Rightarrow>
                      bind_res (unknown_I A_today Tw inflation_rate tax_rate r ti mi)
                        (\<lambda>i. Inr (i, mi, ti))
                  | _ \<Rightarrow> Inl TypeError)
             | Some i \<Rightarrow>
                 (case Mi of
                    None \<Rightarrow>
                      (case Ti of
                         Some ti \<Rightarrow>
                           bind_res (unknown_Mi A_today Tw inflation_rate tax_rate r ti i)
                             (\<lambda>mi. Inr (i, mi, ti))
                       | None \<Rightarrow> Inl TypeError)
                  | Some mi \<Rightarrow>
                      bind_res (unknown_Ti A_today Tw inflation_rate tax_rate r i mi
                                  search_cap_years 0)
                        (\<lambda>ti. Inr (i, mi, ti))))
            (\<lambda>(i, mi, ti).
               let n_final = py_round (ti * 12) in
               bind_res (corpus_after_tax i mi r n_final tax_rate) (\<lambda>C_after.
                 Inr \<lparr>res_I = i, res_Mi = mi, res_Ti = ti,
                      corpus_at_retirement = C_after\<rparr>))))"

section \<open>The formulas of the specification\<close>

text \<open>
  The closed forms as the specification words them (its sections 4.2, 4.3 and 4.4), as
  plain real-valued functions with no failure, to compare the engines with. The
  specification's \<open>round\<close> is read as the rounding of the implementation language.
\<close>

definition spec_future_value :: "real \<Rightarrow> real \<Rightarrow> real \<Rightarrow> nat \<Rightarrow> real" where
  "spec_future_value L M r n =
     (if \<bar>r\<bar> > 1 / 10 ^ 12
      then L * (1 + r) ^ n + M * ((1 + r) ^ n - 1) / r
      else L * (1 + r) ^ n + M * of_nat n)"

definition spec_post_tax_corpus :: "real \<Rightarrow> real \<Rightarrow> real \<Rightarrow> nat \<Rightarrow> real \<Rightarrow> real" where
  "spec_post_tax_corpus L M r n tax =
     (let fv = spec_future_value L M r n in
      fv - tax * max (fv - (L + M * of_nat n)) 0)"

definition spec_required_corpus :: "real \<Rightarrow> real \<Rightarrow> real \<Rightarrow> real \<Rightarrow> real \<Rightarrow> real" where
  "spec_required_corpus A_today Ti Tw infl r_month =
     (let g = (1 + infl) powr (1 / 12) - 1;
          M = nat (py_round (Tw * 12));
          W0 = A_today * (1 + infl) powr Ti
      in if \<bar>r_month - g\<bar> < 1 / 10 ^ 12
         then W0 * of_nat M / (1 + r_month)
         else W0 * (1 - ((1 + g) / (1 + r_month)) ^ M) / (r_month - g))"

text \<open>
  The value, per unit of first withdrawal, of the growing annuity of section 4.4 over
  \<open>M\<close> months: the required corpus is \<open>W0\<close> times this factor.
\<close>

definition spec_withdrawal_factor :: "real \<Rightarrow> real \<Rightarrow> nat \<Rightarrow> real" where
  "spec_withdrawal_factor infl r_month M =
     (let g = (1 + infl) powr (1 / 12) - 1
      in if \<bar>r_month - g\<bar> < 1 / 10 ^ 12
         then of_nat M / (1 + r_month)
         else (1 - ((1 + g) / (1 + r_month)) ^ M) / (r_month - g))"

text \<open>
  The per-unit multipliers of section 4.5: what one unit of lump sum (\<open>A_L\<close>) and one
  unit of monthly contribution (\<open>A_M\<close>) add to the post-tax corpus after \<open>n\<close> months,
  under the tax-on-gains rule of 4.3 with a non-negative gain.
\<close>

definition spec_annuity_factor :: "real \<Rightarrow> nat \<Rightarrow> real" where
  "spec_annuity_factor r n =
     (if \<bar>r\<bar> > 1 / 10 ^ 12 then ((1 + r) ^ n - 1) / r else of_nat n)"

definition spec_A_L :: "real \<Rightarrow> real \<Rightarrow> nat \<Rightarrow> real" where
  "spec_A_L tax r n = (1 - tax) * (1 + r) ^ n + tax"

definition spec_A_M :: "real \<Rightarrow> real \<Rightarrow> nat \<Rightarrow> real" where
  "spec_A_M tax r n = (1 - tax) * spec_annuity_factor r n + tax * of_nat n"

text \<open>
  The corpus condition of the search in section 4.5, at the month count \<open>m\<close>: the
  available after-tax corpus of 4.3 with \<open>n = m\<close> meets or exceeds the required corpus
  of 4.4 with \<open>Ti = m / 12\<close>.
\<close>

definition spec_goal_met ::
  "real \<Rightarrow> real \<Rightarrow> real \<Rightarrow> real \<Rightarrow> real \<Rightarrow> real \<Rightarrow> real \<Rightarrow> int \<Rightarrow> bool" where
  "spec_goal_met A_today Tw infl tax r I Mi m =
     (spec_post_tax_corpus I Mi r (nat m) tax
        \<ge> spec_required_corpus A_today (of_int m / 12) Tw infl r)"

text \<open>The errors a result may carry all lie in the set \<open>S\<close>.\<close>

definition fails_within :: "error set \<Rightarrow> error + 'a \<Rightarrow> bool" where
  "fails_within S m = (case m of Inl e \<Rightarrow> e \<in> S | Inr v \<Rightarrow> True)"

section \<open>Basic facts\<close>

lemma bind_res_Inr [simp]: "bind_res (Inr v) f = f v"
  by (simp add: bind_res_def)

lemma bind_res_Inl [simp]: "bind_res (Inl e) f = Inl e"
  by (simp add: bind_res_def)

lemma py_pow_pos: "0 < x \<Longrightarrow> py_pow x y = Inr (x powr y)"
  by (simp add: py_pow_def)

lemma py_pow_int_nonneg: "0 \<le> n \<Longrightarrow> py_pow_int x n = Inr (x ^ nat n)"
  by (simp add: py_pow_int_def)

lemma gross_monthly_pos:
  "- 1 < r_annual \<Longrightarrow> gross_monthly r_annual = Inr ((1 + r_annual) powr (1 / 12) - 1)"
  by (simp add: gross_monthly_def py_pow_pos)

lemma py_round_of_int [simp]: "py_round (of_int m) = m"
  by (simp add: py_round_def)

lemma py_round_months [simp]: "py_round (of_int m / 12 * 12) = m"
  by (simp add: py_round_def)

lemma py_round_nonneg: "0 \<le> x \<Longrightarrow> 0 \<le> py_round x"
  by (auto simp add: py_round_def Let_def)

lemma py_round_mono: "x \<le> y \<Longrightarrow> py_round x \<le> py_round y"
  unfolding py_round_def Let_def
  by (smt (verit) floor_mono floor_less_iff le_floor_iff of_int_1 of_int_add even_add odd_one)

lemma fv_before_tax_eq:
  "0 \<le> n \<Longrightarrow> fv_before_tax L M r n = Inr (spec_future_value L M r (nat n))"
  by (simp add: fv_before_tax_def spec_future_value_def py_pow_int_nonneg py_div_def)

lemma corpus_after_tax_eq:
  "0 \<le> n \<Longrightarrow> corpus_after_tax L M r n tax = Inr (spec_post_tax_corpus L M r (nat n) tax)"
  by (simp add: corpus_after_tax_def spec_post_tax_corpus_def fv_before_tax_eq Let_def
      mult.commute)

lemma corpus_needed_for_swp_eq:
  assumes "- 1 < infl" and "r_month \<noteq> - 1" and "0 \<le> py_round (Tw * 12)"
  shows "corpus_needed_for_swp A_today Ti Tw infl r_month =
           Inr (spec_required_corpus A_today Ti Tw infl r_month)"
  using assms
  by (simp add: corpus_needed_for_swp_def spec_required_corpus_def py_pow_pos py_div_def
      py_pow_int_nonneg Let_def)

lemma py_round_numeral [simp]: "py_round (numeral k) = numeral k"
  using py_round_of_int [of "numeral k"] by simp

section \<open>The engines compute the closed forms\<close>

text \<open>
  Claim C8. For an integer \<open>n \<ge> 0\<close> the future-value engine returns
  \<open>L (1+r)\<^sup>n + M ((1+r)\<^sup>n - 1) / r\<close> when \<open>\<bar>r\<bar>\<close> exceeds \<open>10\<^sup>-\<^sup>1\<^sup>2\<close> and
  \<open>L (1+r)\<^sup>n + M n\<close> otherwise, and never fails; an annual return of \<open>0\<close> is the monthly
  rate \<open>0\<close>, where the result is exactly \<open>L + M n\<close>.
\<close>

theorem fv_before_tax_formula:
  assumes "0 \<le> n"
  shows "fv_before_tax L M r n =
           Inr (if \<bar>r\<bar> > 1 / 10 ^ 12
                then L * (1 + r) ^ nat n + M * ((1 + r) ^ nat n - 1) / r
                else L * (1 + r) ^ nat n + M * of_int n)
         \<and> gross_monthly 0 = Inr 0
         \<and> fv_before_tax L M 0 n = Inr (L + M * of_int n)"
  using assms
  by (simp add: fv_before_tax_eq spec_future_value_def gross_monthly_def py_pow_pos)

theorem fv_before_tax_formula_witness:
  "fv_before_tax 1000 100 (1 / 100) 2 = Inr (12211 / 10)
   \<and> fv_before_tax 1000 100 (1 / 10 ^ 12) 2 = Inr (1000 * (1 + 1 / 10 ^ 12) ^ 2 + 200)
   \<and> fv_before_tax 1000 100 0 2 = Inr 1200"
  using fv_before_tax_formula [of 2 1000 100 "1 / 100"]
    fv_before_tax_formula [of 2 1000 100 "1 / 10 ^ 12"]
  by (simp add: power2_eq_square)

text \<open>
  Claim C7. For an integer \<open>n \<ge> 0\<close> the post-tax corpus engine returns
  \<open>fv - tax \<sqdot> max (fv - (L + M n)) 0\<close>, where \<open>fv\<close> is the future value of section 4.2,
  which is what the future-value engine returns; when the gain \<open>fv - (L + M n)\<close> is
  negative, no tax is subtracted and the result is \<open>fv\<close>.
\<close>

theorem corpus_after_tax_formula:
  assumes "0 \<le> n"
  shows "fv_before_tax L M r n = Inr (spec_future_value L M r (nat n))
         \<and> corpus_after_tax L M r n tax =
             Inr (let fv = spec_future_value L M r (nat n)
                  in fv - tax * max (fv - (L + M * of_int n)) 0)
         \<and> (spec_future_value L M r (nat n) - (L + M * of_int n) < 0 \<longrightarrow>
              corpus_after_tax L M r n tax = Inr (spec_future_value L M r (nat n)))"
  using assms
  by (simp add: fv_before_tax_eq corpus_after_tax_eq spec_post_tax_corpus_def Let_def)

theorem corpus_after_tax_formula_witness:
  "corpus_after_tax 1000 100 (1 / 100) 2 (1 / 10) = Inr (121899 / 100)
   \<and> corpus_after_tax 100 0 (- 1 / 2) 1 (1 / 2) = Inr 50"
  using corpus_after_tax_formula [of 2 1000 100 "1 / 100" "1 / 10"]
    corpus_after_tax_formula [of 1 100 0 "- 1 / 2" "1 / 2"]
  by (simp add: spec_future_value_def power2_eq_square)

text \<open>
  Claim C6. For \<open>Tw > 0\<close>, an inflation rate above \<open>-1\<close> and a monthly rate other than
  \<open>-1\<close>, the corpus-requirement engine returns, with \<open>g = (1+infl)\<^sup>1\<^sup>/\<^sup>1\<^sup>2 - 1\<close>,
  \<open>M = round (12 Tw)\<close> and \<open>W0 = A_today (1+infl)\<^sup>T\<^sup>i\<close>: \<open>W0 M / (1 + r_month)\<close> when
  \<open>\<bar>r_month - g\<bar> < 10\<^sup>-\<^sup>1\<^sup>2\<close>, and \<open>W0 (1 - k\<^sup>M) / (r_month - g)\<close> with
  \<open>k = (1+g) / (1+r_month)\<close> otherwise. The two conditions on the rates hold for the
  non-negative rates of the data model.
\<close>

theorem corpus_needed_for_swp_formula:
  assumes "0 < Tw" and "- 1 < infl" and "r_month \<noteq> - 1"
  shows "corpus_needed_for_swp A_today Ti Tw infl r_month =
           Inr (let g = (1 + infl) powr (1 / 12) - 1;
                    M = py_round (Tw * 12);
                    W0 = A_today * (1 + infl) powr Ti
                in if \<bar>r_month - g\<bar> < 1 / 10 ^ 12
                   then W0 * of_int M / (1 + r_month)
                   else W0 * (1 - ((1 + g) / (1 + r_month)) ^ nat M) / (r_month - g))"
proof -
  have "0 \<le> py_round (Tw * 12)"
    using assms(1) by (intro py_round_nonneg) simp
  then show ?thesis
    using assms by (simp add: corpus_needed_for_swp_eq spec_required_corpus_def Let_def)
qed

theorem corpus_needed_for_swp_formula_witness:
  "corpus_needed_for_swp 100 3 1 0 0 = Inr 1200
   \<and> corpus_needed_for_swp 100 3 (1 / 6) 0 (1 / 4) = Inr 144"
  using corpus_needed_for_swp_formula [of 1 0 0 100 3]
    corpus_needed_for_swp_formula [of "1 / 6" 0 "1 / 4" 100 3]
  by (simp add: power2_eq_square)

section \<open>Which errors can arise\<close>

declare unknown_Ti.simps [simp del]

declare unknown_Ti_passes.simps [simp del]

lemma fails_within_Inr [simp]: "fails_within S (Inr v)"
  by (simp add: fails_within_def)

lemma fails_within_Inl [simp]: "fails_within S (Inl e) \<longleftrightarrow> e \<in> S"
  by (simp add: fails_within_def)

lemma fails_within_bind:
  "fails_within S m \<Longrightarrow> (\<And>v. fails_within S (f v)) \<Longrightarrow> fails_within S (bind_res m f)"
  by (cases m) simp_all

lemma fails_within_mono: "fails_within S m \<Longrightarrow> S \<subseteq> T \<Longrightarrow> fails_within T m"
  by (cases m) auto

lemma py_div_fails: "fails_within {ZeroDivisionError, ComplexPower} (py_div x y)"
  by (simp add: py_div_def)

lemma py_pow_int_fails: "fails_within {ZeroDivisionError, ComplexPower} (py_pow_int x n)"
  by (simp add: py_pow_int_def)

lemma py_pow_fails: "fails_within {ZeroDivisionError, ComplexPower} (py_pow x y)"
  by (simp add: py_pow_def py_pow_int_fails)

lemma gross_monthly_fails: "fails_within {ZeroDivisionError, ComplexPower} (gross_monthly a)"
  unfolding gross_monthly_def by (intro fails_within_bind py_pow_fails) simp

lemma fv_before_tax_fails:
  "fails_within {ZeroDivisionError, ComplexPower} (fv_before_tax L M r n)"
  unfolding fv_before_tax_def Let_def
  by (intro fails_within_bind py_pow_int_fails) (auto intro!: fails_within_bind py_pow_int_fails py_div_fails)

lemma corpus_after_tax_fails:
  "fails_within {ZeroDivisionError, ComplexPower} (corpus_after_tax L M r n tax)"
  unfolding corpus_after_tax_def Let_def
  by (intro fails_within_bind fv_before_tax_fails) simp

lemma corpus_needed_for_swp_fails:
  "fails_within {ZeroDivisionError, ComplexPower} (corpus_needed_for_swp A Ti Tw infl r)"
  unfolding corpus_needed_for_swp_def Let_def
  by (intro fails_within_bind py_pow_fails)
     (auto intro!: fails_within_bind py_pow_int_fails py_div_fails)

lemma coefficients_fails:
  "fails_within {ZeroDivisionError, ComplexPower} (coefficients A Tw infl tax r Ti)"
  unfolding coefficients_def Let_def
  by (intro fails_within_bind corpus_needed_for_swp_fails py_pow_int_fails)
     (auto intro!: py_div_fails)

lemma unknown_I_fails:
  "fails_within {ZeroDivisionError, ComplexPower} (unknown_I A Tw infl tax r Ti Mi)"
  unfolding unknown_I_def
  by (intro fails_within_bind coefficients_fails) (auto intro!: py_div_fails)

lemma unknown_Mi_fails:
  "fails_within {ZeroDivisionError, ComplexPower} (unknown_Mi A Tw infl tax r Ti I)"
  unfolding unknown_Mi_def
  by (intro fails_within_bind coefficients_fails) (auto intro!: py_div_fails)

lemma unknown_Ti_fails:
  "fails_within {ZeroDivisionError, ComplexPower, RuntimeError}
     (unknown_Ti A Tw infl tax r I Mi cap k)"
proof (induction A Tw infl tax r I Mi cap k rule: unknown_Ti.induct)
  case (1 A Tw infl tax r I Mi cap k)
  let ?S = "{ZeroDivisionError, ComplexPower, RuntimeError}"
  show ?case
  proof (cases "k \<le> cap * 12")
    case False
    then show ?thesis by (subst unknown_Ti.simps) simp
  next
    case in_range: True
    show ?thesis
    proof (cases "corpus_needed_for_swp A (of_int k / 12) Tw infl r")
      case (Inl e)
      with corpus_needed_for_swp_fails [of A "of_int k / 12" Tw infl r]
      show ?thesis using in_range by (subst unknown_Ti.simps) auto
    next
      case need: (Inr Cneed)
      show ?thesis
      proof (cases "corpus_after_tax I Mi r k tax")
        case (Inl e)
        with corpus_after_tax_fails [of I Mi r k tax]
        show ?thesis using in_range need by (subst unknown_Ti.simps) auto
      next
        case avail: (Inr Chave)
        show ?thesis
        proof (cases "Chave \<ge> Cneed")
          case True
          then show ?thesis
            using in_range need avail by (subst unknown_Ti.simps) simp
        next
          case False
          from "1.IH" [OF in_range refl need avail False]
          show ?thesis
            using in_range need avail False by (subst unknown_Ti.simps) simp
        qed
      qed
    qed
  qed
qed

lemma final_fails:
  "fails_within {ZeroDivisionError, ComplexPower, RuntimeError}
      (let n_final = py_round (ti * 12) in
       bind_res (corpus_after_tax i mi r n_final tax) (\<lambda>C_after.
         Inr \<lparr>res_I = i, res_Mi = mi, res_Ti = ti, corpus_at_retirement = C_after\<rparr>))"
  unfolding Let_def
  by (intro fails_within_bind fails_within_mono [OF corpus_after_tax_fails]) auto

lemma count_one_cases:
  assumes "count_list [Ti, Mi, I] None = 1"
  obtains (unknown_I) ti mi where "Ti = Some ti" "Mi = Some mi" "I = None"
    | (unknown_Mi) ti i where "Ti = Some ti" "Mi = None" "I = Some i"
    | (unknown_Ti) mi i where "Ti = None" "Mi = Some mi" "I = Some i"
  using assms by (cases Ti; cases Mi; cases I) simp_all

lemma solve_swp_fails:
  assumes "count_list [Ti, Mi, I] None = 1"
  shows "fails_within {ZeroDivisionError, ComplexPower, RuntimeError}
           (solve_swp A Tw infl ar tax Ti Mi I cap)"
proof -
  let ?S = "{ZeroDivisionError, ComplexPower, RuntimeError}"
  have sub: "{ZeroDivisionError, ComplexPower} \<subseteq> ?S" by auto
  note up = fails_within_mono [OF _ sub]
  from assms show ?thesis
  proof (cases rule: count_one_cases)
    case unknown_I
    then show ?thesis
      unfolding solve_swp_def
      by (auto intro!: fails_within_bind up [OF gross_monthly_fails]
          up [OF unknown_I_fails] final_fails up [OF corpus_after_tax_fails])
  next
    case unknown_Mi
    then show ?thesis
      unfolding solve_swp_def
      by (auto intro!: fails_within_bind up [OF gross_monthly_fails]
          up [OF unknown_Mi_fails] final_fails up [OF corpus_after_tax_fails])
  next
    case unknown_Ti
    then show ?thesis
      unfolding solve_swp_def
      by (auto intro!: fails_within_bind up [OF gross_monthly_fails]
          unknown_Ti_fails final_fails up [OF corpus_after_tax_fails])
  qed
qed

text \<open>
  Claim C9. \<open>solve_swp\<close> raises the invalid-input error exactly when the number of
  unset values among \<open>Ti\<close>, \<open>Mi\<close> and \<open>I\<close> is not \<open>1\<close>. The count is checked first:
  with a count other than \<open>1\<close> the error is the result whatever the other arguments
  are, also those on which the rate conversion or an engine would fail; with a count
  of \<open>1\<close> every failure is a different error.
\<close>

theorem solve_swp_invalid_input:
  "solve_swp A_today Tw inflation_rate annual_return tax_rate Ti Mi I search_cap_years
     = Inl ValueError
   \<longleftrightarrow> count_list [Ti, Mi, I] None \<noteq> 1"
proof
  assume raised: "solve_swp A_today Tw inflation_rate annual_return tax_rate Ti Mi I
     search_cap_years = Inl ValueError"
  show "count_list [Ti, Mi, I] None \<noteq> 1"
  proof
    assume "count_list [Ti, Mi, I] None = 1"
    from solve_swp_fails [OF this, of A_today Tw inflation_rate annual_return tax_rate
        search_cap_years]
    show False by (simp add: raised)
  qed
next
  assume "count_list [Ti, Mi, I] None \<noteq> 1"
  then show "solve_swp A_today Tw inflation_rate annual_return tax_rate Ti Mi I search_cap_years
     = Inl ValueError"
    by (simp add: solve_swp_def)
qed

section \<open>The search for the accumulation period\<close>

lemma gross_monthly_gt: "0 < 1 + ((1 + a) powr (1 / 12) - 1)" if "- 1 < a" for a :: real
  using that by simp

text \<open>One pass of the loop, when neither engine fails.\<close>

lemma unknown_Ti_unfold:
  assumes "0 < Tw" and "- 1 < infl" and "r \<noteq> - 1" and "0 \<le> k"
  shows "unknown_Ti A Tw infl tax r I Mi cap k =
           (if k \<le> cap * 12
            then if spec_goal_met A Tw infl tax r I Mi k then Inr (of_int k / 12)
                 else unknown_Ti A Tw infl tax r I Mi cap (k + 1)
            else Inl RuntimeError)"
proof -
  have "0 \<le> py_round (Tw * 12)"
    using assms(1) by (intro py_round_nonneg) simp
  then have need: "corpus_needed_for_swp A (of_int k / 12) Tw infl r =
      Inr (spec_required_corpus A (of_int k / 12) Tw infl r)"
    using assms by (simp add: corpus_needed_for_swp_eq)
  have avail: "corpus_after_tax I Mi r k tax = Inr (spec_post_tax_corpus I Mi r (nat k) tax)"
    using assms by (simp add: corpus_after_tax_eq)
  show ?thesis
    by (subst unknown_Ti.simps) (simp add: need avail spec_goal_met_def)
qed

lemma unknown_Ti_found:
  assumes "0 < Tw" and "- 1 < infl" and "r \<noteq> - 1"
    and "0 \<le> k" and "k \<le> m" and "m \<le> cap * 12"
    and "spec_goal_met A Tw infl tax r I Mi m"
    and "\<forall>j. k \<le> j \<and> j < m \<longrightarrow> \<not> spec_goal_met A Tw infl tax r I Mi j"
  shows "unknown_Ti A Tw infl tax r I Mi cap k = Inr (of_int m / 12)"
  using assms(4,5,8)
proof (induction "nat (m - k)" arbitrary: k)
  case 0
  then have "k = m" by simp
  then show ?case
    using assms by (subst unknown_Ti_unfold) simp_all
next
  case (Suc d)
  then have lt: "k < m" by simp
  then have no: "\<not> spec_goal_met A Tw infl tax r I Mi k"
    using Suc.prems by simp
  have "unknown_Ti A Tw infl tax r I Mi cap (k + 1) = Inr (of_int m / 12)"
    using Suc.hyps(2) Suc.prems lt by (intro Suc.hyps(1)) auto
  then show ?case
    using assms(1,2,3,6) Suc.prems(1) lt no by (subst unknown_Ti_unfold) simp_all
qed

lemma unknown_Ti_exhausted:
  assumes "0 < Tw" and "- 1 < infl" and "r \<noteq> - 1"
    and "0 \<le> k"
    and "\<forall>j. k \<le> j \<and> j \<le> cap * 12 \<longrightarrow> \<not> spec_goal_met A Tw infl tax r I Mi j"
  shows "unknown_Ti A Tw infl tax r I Mi cap k = Inl RuntimeError"
  using assms(4,5)
proof (induction "nat (cap * 12 + 1 - k)" arbitrary: k)
  case 0
  then have "\<not> k \<le> cap * 12" by simp
  then show ?case
    using assms(1,2,3) "0.prems" by (subst unknown_Ti_unfold) simp_all
next
  case (Suc d)
  then have le: "k \<le> cap * 12" by simp
  then have no: "\<not> spec_goal_met A Tw infl tax r I Mi k"
    using Suc.prems by simp
  have "unknown_Ti A Tw infl tax r I Mi cap (k + 1) = Inl RuntimeError"
    using Suc.hyps(2) Suc.prems le by (intro Suc.hyps(1)) auto
  then show ?case
    using assms(1,2,3) Suc.prems(1) le no by (subst unknown_Ti_unfold) simp_all
qed

lemma solve_swp_unknown_Ti_eq:
  assumes "- 1 < annual_return"
  shows "solve_swp A Tw infl annual_return tax None (Some Mi) (Some I) cap =
     bind_res (unknown_Ti A Tw infl tax ((1 + annual_return) powr (1 / 12) - 1) I Mi cap 0)
       (\<lambda>ti. bind_res (corpus_after_tax I Mi ((1 + annual_return) powr (1 / 12) - 1)
                  (py_round (ti * 12)) tax)
          (\<lambda>C_after. Inr \<lparr>res_I = I, res_Mi = Mi, res_Ti = ti,
              corpus_at_retirement = C_after\<rparr>))"
  using assms
  by (cases "unknown_Ti A Tw infl tax ((1 + annual_return) powr (1 / 12) - 1) I Mi cap 0")
     (simp_all add: solve_swp_def gross_monthly_pos Let_def)

text \<open>
  Claim C1. With \<open>Ti\<close> unset and \<open>I\<close>, \<open>Mi\<close> given, \<open>Tw > 0\<close> and both annual rates
  above \<open>-1\<close>: if \<open>m\<close> is the smallest month count in \<open>[0, 12 \<sqdot> search_cap_years]\<close> at
  which the after-tax corpus of 4.3 (with \<open>n = m\<close>) meets or exceeds the required corpus
  of 4.4 (with \<open>Ti = m / 12\<close>), then \<open>solve_swp\<close> returns \<open>Ti = m / 12\<close>, with the given
  \<open>I\<close> and \<open>Mi\<close> and the after-tax corpus at \<open>m\<close> months; if no month count in that
  range meets the condition, it raises the goal-unreachable error.
\<close>

theorem solve_swp_unknown_Ti:
  assumes "0 < Tw" and "- 1 < inflation_rate" and "- 1 < annual_return"
  defines "r \<equiv> (1 + annual_return) powr (1 / 12) - 1"
  shows "(0 \<le> m \<and> m \<le> 12 * search_cap_years
            \<and> spec_goal_met A_today Tw inflation_rate tax_rate r I Mi m
            \<and> (\<forall>j. 0 \<le> j \<and> j < m \<longrightarrow>
                   \<not> spec_goal_met A_today Tw inflation_rate tax_rate r I Mi j)
          \<longrightarrow> solve_swp A_today Tw inflation_rate annual_return tax_rate
                 None (Some Mi) (Some I) search_cap_years
               = Inr \<lparr>res_I = I, res_Mi = Mi, res_Ti = of_int m / 12,
                      corpus_at_retirement = spec_post_tax_corpus I Mi r (nat m) tax_rate\<rparr>)
       \<and> ((\<forall>j. 0 \<le> j \<and> j \<le> 12 * search_cap_years \<longrightarrow>
                 \<not> spec_goal_met A_today Tw inflation_rate tax_rate r I Mi j)
          \<longrightarrow> solve_swp A_today Tw inflation_rate annual_return tax_rate
                 None (Some Mi) (Some I) search_cap_years
               = Inl RuntimeError)"
proof -
  have r: "r \<noteq> - 1"
    using assms(3) gross_monthly_gt [of annual_return] by (simp add: r_def)
  show ?thesis
  proof (intro conjI impI)
    assume "0 \<le> m \<and> m \<le> 12 * search_cap_years
            \<and> spec_goal_met A_today Tw inflation_rate tax_rate r I Mi m
            \<and> (\<forall>j. 0 \<le> j \<and> j < m \<longrightarrow>
                   \<not> spec_goal_met A_today Tw inflation_rate tax_rate r I Mi j)"
    then have "unknown_Ti A_today Tw inflation_rate tax_rate r I Mi search_cap_years 0
        = Inr (of_int m / 12)" and "0 \<le> m"
      using assms(1,2) r by (auto intro!: unknown_Ti_found)
    then show "solve_swp A_today Tw inflation_rate annual_return tax_rate
                 None (Some Mi) (Some I) search_cap_years
               = Inr \<lparr>res_I = I, res_Mi = Mi, res_Ti = of_int m / 12,
                      corpus_at_retirement = spec_post_tax_corpus I Mi r (nat m) tax_rate\<rparr>"
      using assms(3) by (simp add: solve_swp_unknown_Ti_eq r_def [symmetric] corpus_after_tax_eq)
  next
    assume "\<forall>j. 0 \<le> j \<and> j \<le> 12 * search_cap_years \<longrightarrow>
                 \<not> spec_goal_met A_today Tw inflation_rate tax_rate r I Mi j"
    then have "unknown_Ti A_today Tw inflation_rate tax_rate r I Mi search_cap_years 0
        = Inl RuntimeError"
      using assms(1,2) r by (intro unknown_Ti_exhausted) (simp_all add: mult.commute)
    then show "solve_swp A_today Tw inflation_rate annual_return tax_rate
                 None (Some Mi) (Some I) search_cap_years = Inl RuntimeError"
      using assms(3) by (simp add: solve_swp_unknown_Ti_eq r_def [symmetric])
  qed
qed

theorem solve_swp_unknown_Ti_witness:
  "solve_swp 1 1 0 0 (1 / 2) None (Some 4) (Some 0) 100
     = Inr \<lparr>res_I = 0, res_Mi = 4, res_Ti = 1 / 4, corpus_at_retirement = 12\<rparr>
   \<and> solve_swp 1 1 0 0 (1 / 2) None (Some 0) (Some 0) 1 = Inl RuntimeError"
proof -
  have met: "spec_goal_met 1 1 0 (1 / 2) 0 0 4 j \<longleftrightarrow> 3 \<le> j" for j
    by (auto simp add: spec_goal_met_def spec_post_tax_corpus_def spec_future_value_def
        spec_required_corpus_def)
  have never: "\<not> spec_goal_met 1 1 0 (1 / 2) 0 0 0 j" for j
    by (simp add: spec_goal_met_def spec_post_tax_corpus_def spec_future_value_def
        spec_required_corpus_def)
  have val: "spec_post_tax_corpus 0 4 0 3 (1 / 2) = 12"
    by (simp add: spec_post_tax_corpus_def spec_future_value_def)
  show ?thesis
    using solve_swp_unknown_Ti [where Tw = 1 and inflation_rate = 0 and annual_return = 0
        and A_today = 1 and tax_rate = "1 / 2" and I = 0 and Mi = 4 and m = 3
        and search_cap_years = 100]
      solve_swp_unknown_Ti [where Tw = 1 and inflation_rate = 0 and annual_return = 0
        and A_today = 1 and tax_rate = "1 / 2" and I = 0 and Mi = 0 and m = 0
        and search_cap_years = 1]
    by (simp add: met never val)
qed

section \<open>The cost of the search\<close>

lemma unknown_Ti_passes_bound:
  "unknown_Ti_passes A Tw infl tax r I Mi cap k \<le> nat (cap * 12 + 1 - k)"
proof (induction A Tw infl tax r I Mi cap k rule: unknown_Ti_passes.induct)
  case (1 A Tw infl tax r I Mi cap k)
  show ?case
  proof (cases "k \<le> cap * 12")
    case False
    then show ?thesis by (subst unknown_Ti_passes.simps) simp
  next
    case in_range: True
    show ?thesis
    proof (cases "corpus_needed_for_swp A (of_int k / 12) Tw infl r")
      case (Inl e)
      then show ?thesis using in_range by (subst unknown_Ti_passes.simps) simp
    next
      case need: (Inr Cneed)
      show ?thesis
      proof (cases "corpus_after_tax I Mi r k tax")
        case (Inl e)
        then show ?thesis using in_range need by (subst unknown_Ti_passes.simps) simp
      next
        case avail: (Inr Chave)
        show ?thesis
        proof (cases "Chave \<ge> Cneed")
          case True
          then show ?thesis
            using in_range need avail by (subst unknown_Ti_passes.simps) simp
        next
          case False
          from "1.IH" [OF in_range refl need avail False]
          show ?thesis
            using in_range need avail False by (subst unknown_Ti_passes.simps) simp
        qed
      qed
    qed
  qed
qed

lemma unknown_Ti_passes_result:
  "unknown_Ti A Tw infl tax r I Mi cap k = Inr ti \<Longrightarrow>
     1 \<le> unknown_Ti_passes A Tw infl tax r I Mi cap k
     \<and> ti = (of_int k + real (unknown_Ti_passes A Tw infl tax r I Mi cap k) - 1) / 12"
proof (induction A Tw infl tax r I Mi cap k rule: unknown_Ti.induct)
  case (1 A Tw infl tax r I Mi cap k)
  show ?case
  proof (cases "k \<le> cap * 12")
    case False
    then show ?thesis using "1.prems" by (subst (asm) unknown_Ti.simps) simp
  next
    case in_range: True
    show ?thesis
    proof (cases "corpus_needed_for_swp A (of_int k / 12) Tw infl r")
      case (Inl e)
      then show ?thesis using in_range "1.prems" by (subst (asm) unknown_Ti.simps) simp
    next
      case need: (Inr Cneed)
      show ?thesis
      proof (cases "corpus_after_tax I Mi r k tax")
        case (Inl e)
        then show ?thesis
          using in_range need "1.prems" by (subst (asm) unknown_Ti.simps) simp
      next
        case avail: (Inr Chave)
        show ?thesis
        proof (cases "Chave \<ge> Cneed")
          case True
          have "ti = of_int k / 12"
            using in_range need avail True "1.prems" by (subst (asm) unknown_Ti.simps) simp
          moreover have "unknown_Ti_passes A Tw infl tax r I Mi cap k = 1"
            using in_range need avail True by (subst unknown_Ti_passes.simps) simp
          ultimately show ?thesis by simp
        next
          case False
          have "unknown_Ti A Tw infl tax r I Mi cap (k + 1) = Inr ti"
            using in_range need avail False "1.prems" by (subst (asm) unknown_Ti.simps) simp
          from "1.IH" [OF in_range refl need avail False this]
          have "ti = (of_int (k + 1) + real (unknown_Ti_passes A Tw infl tax r I Mi cap (k + 1)) - 1) / 12"
            by simp
          moreover have "unknown_Ti_passes A Tw infl tax r I Mi cap k =
              1 + unknown_Ti_passes A Tw infl tax r I Mi cap (k + 1)"
            using in_range need avail False by (subst unknown_Ti_passes.simps) simp
          ultimately show ?thesis by simp
        qed
      qed
    qed
  qed
qed

text \<open>
  Claim C10. \<open>solve_swp\<close> terminates: the model is a total function, whose only
  recursion is the search \<^const>\<open>unknown_Ti\<close>, accepted with the measure
  \<open>12 \<sqdot> search_cap_years + 1 - months\<close>; \<^const>\<open>unknown_I\<close> and \<^const>\<open>unknown_Mi\<close>
  are closed forms with no recursion. Started at month \<open>0\<close>, the loop body runs at most
  \<open>12 \<sqdot> search_cap_years + 1\<close> times, and when the search returns after \<open>p\<close> passes
  the period it returns is \<open>(p - 1) / 12\<close>.
\<close>

theorem unknown_Ti_search_bounded:
  "unknown_Ti_passes A_today Tw inflation_rate tax_rate r I Mi search_cap_years 0
     \<le> nat (12 * search_cap_years + 1)
   \<and> (case unknown_Ti A_today Tw inflation_rate tax_rate r I Mi search_cap_years 0 of
         Inl e \<Rightarrow> True
       | Inr ti \<Rightarrow>
           1 \<le> unknown_Ti_passes A_today Tw inflation_rate tax_rate r I Mi search_cap_years 0
           \<and> ti = (real (unknown_Ti_passes A_today Tw inflation_rate tax_rate r I Mi
                     search_cap_years 0) - 1) / 12)"
proof -
  have "unknown_Ti_passes A_today Tw inflation_rate tax_rate r I Mi search_cap_years 0
     \<le> nat (12 * search_cap_years + 1)"
    using unknown_Ti_passes_bound [of A_today Tw inflation_rate tax_rate r I Mi search_cap_years 0]
    by (simp add: mult.commute)
  then show ?thesis
    using unknown_Ti_passes_result [of A_today Tw inflation_rate tax_rate r I Mi search_cap_years 0]
    by (auto split: sum.splits)
qed

section \<open>The closed-form branches\<close>

lemma root12: "(x ^ 12) powr (1 / 12) = x" if "0 < x" for x :: real
proof -
  have "(x ^ 12) powr (1 / 12) = (x powr 12) powr (1 / 12)"
    using that powr_realpow [of x 12] by simp
  also have "\<dots> = x powr 1"
    by (simp add: powr_powr)
  finally show ?thesis using that by simp
qed

lemma spec_future_value_linear:
  "spec_future_value L M r n = L * (1 + r) ^ n + M * spec_annuity_factor r n"
  by (simp add: spec_future_value_def spec_annuity_factor_def)

lemma coefficients_eq:
  assumes "0 < Tw" and "- 1 < infl" and "r \<noteq> - 1" and "0 \<le> Ti"
  shows "coefficients A Tw infl tax r Ti =
           Inr (spec_required_corpus A Ti Tw infl r,
                spec_A_L tax r (nat (py_round (Ti * 12))),
                spec_A_M tax r (nat (py_round (Ti * 12))))"
proof -
  have M: "0 \<le> py_round (Tw * 12)"
    using assms(1) by (intro py_round_nonneg) simp
  have n: "0 \<le> py_round (Ti * 12)"
    using assms(4) by (intro py_round_nonneg) simp
  show ?thesis
    using assms(2,3) M n
    by (simp add: coefficients_def corpus_needed_for_swp_eq py_pow_int_nonneg py_div_def
        spec_A_L_def spec_A_M_def spec_annuity_factor_def Let_def)
qed

text \<open>With a non-negative gain the post-tax corpus is linear in the two amounts.\<close>

lemma spec_post_tax_corpus_linear:
  assumes "L + M * of_nat n \<le> spec_future_value L M r n"
  shows "spec_post_tax_corpus L M r n tax = spec_A_L tax r n * L + spec_A_M tax r n * M"
proof -
  have "max (spec_future_value L M r n - (L + M * of_nat n)) 0 =
      spec_future_value L M r n - (L + M * of_nat n)"
    using assms by simp
  then have "spec_post_tax_corpus L M r n tax =
      spec_future_value L M r n - tax * (spec_future_value L M r n - (L + M * of_nat n))"
    by (simp add: spec_post_tax_corpus_def Let_def)
  then show ?thesis
    by (simp add: spec_future_value_linear spec_A_L_def spec_A_M_def algebra_simps)
qed

lemma spec_A_L_pos:
  assumes "- 1 < r" and "0 \<le> tax" and "tax \<le> 1"
  shows "0 < spec_A_L tax r n"
proof -
  have g: "0 < (1 + r) ^ n" using assms(1) by simp
  show ?thesis
  proof (cases "tax = 1")
    case True
    then show ?thesis by (simp add: spec_A_L_def)
  next
    case False
    then have "0 < (1 - tax) * (1 + r) ^ n" using assms g by simp
    then show ?thesis using assms by (simp add: spec_A_L_def add_pos_nonneg)
  qed
qed

lemma spec_annuity_factor_pos:
  assumes "- 1 < r" and "1 \<le> n"
  shows "0 < spec_annuity_factor r n"
proof (cases "\<bar>r\<bar> > 1 / 10 ^ 12")
  case False
  then show ?thesis using assms by (simp add: spec_annuity_factor_def)
next
  case True
  then have r0: "r \<noteq> 0" by auto
  show ?thesis
  proof (cases "0 < r")
    case True
    then have "1 < (1 + r) ^ n" using assms(2) by (intro one_less_power) simp_all
    then show ?thesis using True \<open>\<bar>r\<bar> > 1 / 10 ^ 12\<close> by (simp add: spec_annuity_factor_def)
  next
    case False
    then have neg: "r < 0" using r0 by simp
    then have "(1 + r) ^ n < 1" using assms by (simp add: power_less_one_iff)
    then show ?thesis using neg \<open>\<bar>r\<bar> > 1 / 10 ^ 12\<close>
      by (simp add: spec_annuity_factor_def divide_neg_neg)
  qed
qed

lemma spec_A_M_pos:
  assumes "- 1 < r" and "0 \<le> tax" and "tax \<le> 1" and "1 \<le> n"
  shows "0 < spec_A_M tax r n"
proof -
  have a: "0 < spec_annuity_factor r n" using assms by (intro spec_annuity_factor_pos)
  have n: "0 < real n" using assms(4) by simp
  show ?thesis
  proof (cases "tax = 0")
    case True
    then show ?thesis using a by (simp add: spec_A_M_def)
  next
    case False
    then have "0 < tax * real n" using assms n by simp
    moreover have "0 \<le> (1 - tax) * spec_annuity_factor r n" using assms a by simp
    ultimately show ?thesis by (simp add: spec_A_M_def add_nonneg_pos)
  qed
qed

lemma py_round_zero [simp]: "py_round 0 = 0"
  using py_round_of_int [of 0] by simp

lemma py_round_one [simp]: "py_round 1 = 1"
  using py_round_of_int [of 1] by simp

lemma spec_A_M_zero [simp]: "spec_A_M tax r 0 = 0"
  by (simp add: spec_A_M_def spec_annuity_factor_def)

lemma solve_swp_unknown_I_eq:
  fixes A Mi :: real
  assumes "0 < Tw" and "- 1 < infl" and "- 1 < annual_return"
    and "0 \<le> tax" and "tax \<le> 1" and "0 \<le> Ti"
  defines "r \<equiv> (1 + annual_return) powr (1 / 12) - 1"
  defines "n \<equiv> nat (py_round (Ti * 12))"
  defines "i \<equiv> (spec_required_corpus A Ti Tw infl r - spec_A_M tax r n * Mi) / spec_A_L tax r n"
  shows "solve_swp A Tw infl annual_return tax (Some Ti) (Some Mi) None cap =
           Inr \<lparr>res_I = i, res_Mi = Mi, res_Ti = Ti,
                corpus_at_retirement = spec_post_tax_corpus i Mi r n tax\<rparr>"
proof -
  have r: "r \<noteq> - 1" "- 1 < r"
    using assms(3) by (simp_all add: r_def)
  have n: "0 \<le> py_round (Ti * 12)"
    using assms(6) by (intro py_round_nonneg) simp
  have "spec_A_L tax r n \<noteq> 0"
    using spec_A_L_pos [OF r(2) assms(4,5), of n] by simp
  then have "unknown_I A Tw infl tax r Ti Mi = Inr i"
    using assms(1,2,6) r(1)
    by (simp add: unknown_I_def coefficients_eq py_div_def i_def n_def)
  then show ?thesis
    using assms(3) n
    by (simp add: solve_swp_def gross_monthly_pos r_def [symmetric] corpus_after_tax_eq n_def)
qed

lemma solve_swp_unknown_Mi_eq:
  fixes A I :: real
  assumes "0 < Tw" and "- 1 < infl" and "- 1 < annual_return"
    and "0 \<le> tax" and "tax \<le> 1" and "0 \<le> Ti"
  defines "r \<equiv> (1 + annual_return) powr (1 / 12) - 1"
  defines "n \<equiv> nat (py_round (Ti * 12))"
  defines "mi \<equiv> (spec_required_corpus A Ti Tw infl r - spec_A_L tax r n * I) / spec_A_M tax r n"
  assumes "1 \<le> n"
  shows "solve_swp A Tw infl annual_return tax (Some Ti) None (Some I) cap =
           Inr \<lparr>res_I = I, res_Mi = mi, res_Ti = Ti,
                corpus_at_retirement = spec_post_tax_corpus I mi r n tax\<rparr>"
proof -
  have r: "r \<noteq> - 1" "- 1 < r"
    using assms(3) by (simp_all add: r_def)
  have n: "0 \<le> py_round (Ti * 12)"
    using assms(6) by (intro py_round_nonneg) simp
  have "spec_A_M tax r n \<noteq> 0"
    using spec_A_M_pos [OF r(2) assms(4,5) \<open>1 \<le> n\<close>] by simp
  then have "unknown_Mi A Tw infl tax r Ti I = Inr mi"
    using assms(1,2,6) r(1)
    by (simp add: unknown_Mi_def coefficients_eq py_div_def mi_def n_def)
  then show ?thesis
    using assms(3) n
    by (simp add: solve_swp_def gross_monthly_pos r_def [symmetric] corpus_after_tax_eq n_def)
qed

lemma solve_swp_unknown_Mi_zero:
  assumes "0 < Tw" and "- 1 < infl" and "- 1 < annual_return"
    and "0 \<le> Ti" and "py_round (Ti * 12) = 0"
  shows "solve_swp A Tw infl annual_return tax (Some Ti) None (Some I) cap =
           Inl ZeroDivisionError"
proof -
  let ?r = "(1 + annual_return) powr (1 / 12) - 1"
  have r: "?r \<noteq> - 1"
    using assms(3) by simp
  have "unknown_Mi A Tw infl tax ?r Ti I = Inl ZeroDivisionError"
    using assms(1,2,4,5) r
    by (simp add: unknown_Mi_def coefficients_eq py_div_def)
  then show ?thesis
    using assms(3) by (simp add: solve_swp_def gross_monthly_pos)
qed

text \<open>
  Claim C3. The claim is that \<open>solve_swp\<close> raises nothing but the invalid-input and
  the goal-unreachable error on the documented domain, the division by \<open>A_M\<close> in the
  unknown-\<open>Mi\<close> branch included, for every \<open>Ti \<ge> 0\<close>. At \<open>Ti = 0\<close> the month count is
  \<open>0\<close>, so \<open>A_M = 0\<close>, and the division raises: with the parameters of the driver,
  \<open>Ti = 0\<close>, \<open>I = 0\<close> and \<open>Mi\<close> unset, the result is \<open>ZeroDivisionError\<close>.
\<close>

theorem solve_swp_unknown_Mi_at_zero:
  "solve_swp 100000 10 (7 / 100) (125 / 1000) (125 / 1000) (Some 0) None (Some 0) 100
     = Inl ZeroDivisionError"
  by (rule solve_swp_unknown_Mi_zero) simp_all

lemma monthly_one_percent:
  "(1 + ((101 / 100) ^ 12 - 1)) powr (1 / 12) - 1 = (1 / 100 :: real)"
proof -
  have "(1 + ((101 / 100) ^ 12 - 1)) powr (1 / 12) = (((101 / 100) ^ 12) powr (1 / 12) :: real)"
    by (simp only: add_diff_cancel_left' diff_add_cancel add.commute [of 1])
  also have "\<dots> = 101 / 100"
    by (rule root12) simp
  finally show ?thesis by simp
qed

lemma annual_gt: "- 1 < ((101 / 100) ^ 12 - 1 :: real)"
  by simp

lemma spec_annuity_factor_ge:
  assumes "0 \<le> r"
  shows "of_nat n \<le> spec_annuity_factor r n"
proof (cases "\<bar>r\<bar> > 1 / 10 ^ 12")
  case False
  then show ?thesis by (simp add: spec_annuity_factor_def)
next
  case True
  then have pos: "0 < r" using assms by simp
  have "1 + of_nat n * r \<le> (1 + r) ^ n"
    using assms by (intro Bernoulli_inequality) simp
  then have "of_nat n * r \<le> (1 + r) ^ n - 1" by simp
  then have "of_nat n \<le> ((1 + r) ^ n - 1) / r"
    using pos by (simp add: pos_le_divide_eq)
  then show ?thesis using True by (simp add: spec_annuity_factor_def)
qed

lemma gain_nonneg:
  assumes "0 \<le> r" and "0 \<le> L" and "0 \<le> M"
  shows "L + M * of_nat n \<le> spec_future_value L M r n"
proof -
  have "1 \<le> (1 + r) ^ n" using assms(1) by (intro one_le_power) simp
  then have "L * 1 \<le> L * (1 + r) ^ n" using assms(2) by (intro mult_left_mono)
  moreover have "M * of_nat n \<le> M * spec_annuity_factor r n"
    using assms(1,3) by (intro mult_left_mono spec_annuity_factor_ge)
  ultimately show ?thesis by (simp add: spec_future_value_linear)
qed

lemma gross_monthly_nonneg: "0 \<le> (1 + a) powr (1 / 12) - 1" if "0 \<le> a" for a :: real
  using that by (simp add: ge_one_powr_ge_zero)

text \<open>
  Claim C2, amended. Let \<open>Tw > 0\<close>, both annual rates above \<open>-1\<close>, \<open>tax_rate\<close> in
  \<open>[0, 1]\<close> and \<open>Ti \<ge> 0\<close>, with \<open>r\<close> the monthly rate, \<open>n = round (12 Ti)\<close> and \<open>Cn\<close>
  the required corpus of 4.4 at \<open>Ti\<close>, which is what the corpus-requirement engine
  returns. With \<open>I\<close> unset, and with \<open>Mi\<close> unset when \<open>n \<ge> 1\<close>, \<open>solve_swp\<close> returns a
  result, and its \<open>corpus_at_retirement\<close> equals \<open>Cn\<close> whenever the pre-tax gain of the
  resolved triple is not negative; that is so in particular when the annual return,
  the given amount and the resolved amount are all non-negative.
\<close>

theorem solve_swp_corpus_meets_requirement:
  fixes A_today Mi I :: real
  assumes "0 < Tw" and "- 1 < inflation_rate" and "- 1 < annual_return"
    and "0 \<le> tax_rate" and "tax_rate \<le> 1" and "0 \<le> Ti"
  defines "r \<equiv> (1 + annual_return) powr (1 / 12) - 1"
  defines "n \<equiv> nat (py_round (Ti * 12))"
  defines "Cn \<equiv> spec_required_corpus A_today Ti Tw inflation_rate r"
  shows "corpus_needed_for_swp A_today Ti Tw inflation_rate r = Inr Cn
     \<and> (\<exists>res. solve_swp A_today Tw inflation_rate annual_return tax_rate
                (Some Ti) (Some Mi) None search_cap_years = Inr res
           \<and> (res_I res + Mi * of_nat n \<le> spec_future_value (res_I res) Mi r n
                \<longrightarrow> corpus_at_retirement res = Cn)
           \<and> (0 \<le> annual_return \<and> 0 \<le> Mi \<and> 0 \<le> res_I res
                \<longrightarrow> corpus_at_retirement res = Cn))
     \<and> (1 \<le> n \<longrightarrow>
         (\<exists>res. solve_swp A_today Tw inflation_rate annual_return tax_rate
                (Some Ti) None (Some I) search_cap_years = Inr res
           \<and> (I + res_Mi res * of_nat n \<le> spec_future_value I (res_Mi res) r n
                \<longrightarrow> corpus_at_retirement res = Cn)
           \<and> (0 \<le> annual_return \<and> 0 \<le> I \<and> 0 \<le> res_Mi res
                \<longrightarrow> corpus_at_retirement res = Cn)))"
proof (intro conjI impI)
  have r: "r \<noteq> - 1" "- 1 < r"
    using assms(3) by (simp_all add: r_def)
  have "0 \<le> py_round (Tw * 12)"
    using assms(1) by (intro py_round_nonneg) simp
  then show "corpus_needed_for_swp A_today Ti Tw inflation_rate r = Inr Cn"
    using assms(2) r(1) by (simp add: corpus_needed_for_swp_eq Cn_def)
  have aL: "spec_A_L tax_rate r n \<noteq> 0"
    using spec_A_L_pos [OF r(2) assms(4,5), of n] by simp
  define i where "i = (Cn - spec_A_M tax_rate r n * Mi) / spec_A_L tax_rate r n"
  have solve_i: "solve_swp A_today Tw inflation_rate annual_return tax_rate
      (Some Ti) (Some Mi) None search_cap_years
        = Inr \<lparr>res_I = i, res_Mi = Mi, res_Ti = Ti,
               corpus_at_retirement = spec_post_tax_corpus i Mi r n tax_rate\<rparr>"
    using solve_swp_unknown_I_eq [OF assms(1-6), of A_today Mi search_cap_years]
    by (simp add: i_def Cn_def r_def n_def)
  have lin_i: "spec_post_tax_corpus i Mi r n tax_rate = Cn"
    if "i + Mi * of_nat n \<le> spec_future_value i Mi r n"
    using spec_post_tax_corpus_linear [OF that, of tax_rate] aL by (simp add: i_def)
  have pos_i: "spec_post_tax_corpus i Mi r n tax_rate = Cn"
    if "0 \<le> annual_return \<and> 0 \<le> Mi \<and> 0 \<le> i"
    using that gross_monthly_nonneg [of annual_return]
    by (intro lin_i gain_nonneg) (simp_all add: r_def)
  show "\<exists>res. solve_swp A_today Tw inflation_rate annual_return tax_rate
                (Some Ti) (Some Mi) None search_cap_years = Inr res
           \<and> (res_I res + Mi * of_nat n \<le> spec_future_value (res_I res) Mi r n
                \<longrightarrow> corpus_at_retirement res = Cn)
           \<and> (0 \<le> annual_return \<and> 0 \<le> Mi \<and> 0 \<le> res_I res
                \<longrightarrow> corpus_at_retirement res = Cn)"
    using solve_i lin_i pos_i by simp
next
  assume n1: "1 \<le> n"
  have r: "r \<noteq> - 1" "- 1 < r"
    using assms(3) by (simp_all add: r_def)
  have aM: "spec_A_M tax_rate r n \<noteq> 0"
    using spec_A_M_pos [OF r(2) assms(4,5) n1] by simp
  define mi where "mi = (Cn - spec_A_L tax_rate r n * I) / spec_A_M tax_rate r n"
  have solve_mi: "solve_swp A_today Tw inflation_rate annual_return tax_rate
      (Some Ti) None (Some I) search_cap_years
        = Inr \<lparr>res_I = I, res_Mi = mi, res_Ti = Ti,
               corpus_at_retirement = spec_post_tax_corpus I mi r n tax_rate\<rparr>"
    using solve_swp_unknown_Mi_eq [OF assms(1-6), of A_today I search_cap_years] n1
    by (simp add: mi_def Cn_def r_def n_def)
  have lin_mi: "spec_post_tax_corpus I mi r n tax_rate = Cn"
    if "I + mi * of_nat n \<le> spec_future_value I mi r n"
    using spec_post_tax_corpus_linear [OF that, of tax_rate] aM by (simp add: mi_def)
  have pos_mi: "spec_post_tax_corpus I mi r n tax_rate = Cn"
    if "0 \<le> annual_return \<and> 0 \<le> I \<and> 0 \<le> mi"
    using that gross_monthly_nonneg [of annual_return]
    by (intro lin_mi gain_nonneg) (simp_all add: r_def)
  show "\<exists>res. solve_swp A_today Tw inflation_rate annual_return tax_rate
                (Some Ti) None (Some I) search_cap_years = Inr res
           \<and> (I + res_Mi res * of_nat n \<le> spec_future_value I (res_Mi res) r n
                \<longrightarrow> corpus_at_retirement res = Cn)
           \<and> (0 \<le> annual_return \<and> 0 \<le> I \<and> 0 \<le> res_Mi res
                \<longrightarrow> corpus_at_retirement res = Cn)"
    using solve_mi lin_mi pos_mi by simp
qed

theorem solve_swp_corpus_meets_requirement_witness:
  "solve_swp 1 (1 / 12) 0 ((101 / 100) ^ 12 - 1) (1 / 2) (Some (1 / 12)) (Some 0) None 100
     = Inr \<lparr>res_I = 20000 / 20301, res_Mi = 0, res_Ti = 1 / 12,
            corpus_at_retirement = 100 / 101\<rparr>
   \<and> solve_swp 1 (1 / 12) 0 ((101 / 100) ^ 12 - 1) (1 / 2) (Some (1 / 12)) None (Some 0) 100
     = Inr \<lparr>res_I = 0, res_Mi = 100 / 101, res_Ti = 1 / 12,
            corpus_at_retirement = 100 / 101\<rparr>
   \<and> corpus_needed_for_swp 1 (1 / 12) (1 / 12) 0 (1 / 100) = Inr (100 / 101)"
proof -
  have req: "spec_required_corpus 1 (1 / 12) (1 / 12) 0 (1 / 100) = 100 / 101"
    by (simp add: spec_required_corpus_def)
  have aL: "spec_A_L (1 / 2) (1 / 100) (Suc 0) = 201 / 200"
    by (simp add: spec_A_L_def)
  have aM: "spec_A_M (1 / 2) (1 / 100) (Suc 0) = 1"
    by (simp add: spec_A_M_def spec_annuity_factor_def)
  note main = solve_swp_corpus_meets_requirement [where Tw = "1 / 12" and inflation_rate = 0
      and annual_return = "(101 / 100) ^ 12 - 1" and tax_rate = "1 / 2" and Ti = "1 / 12"
      and A_today = 1 and Mi = 0 and I = 0 and search_cap_years = 100,
      unfolded monthly_one_percent]
  have i_eq: "solve_swp 1 (1 / 12) 0 ((101 / 100) ^ 12 - 1) (1 / 2) (Some (1 / 12)) (Some 0)
      None 100
     = Inr \<lparr>res_I = 20000 / 20301, res_Mi = 0, res_Ti = 1 / 12,
            corpus_at_retirement = spec_post_tax_corpus (20000 / 20301) 0 (1 / 100) (Suc 0) (1 / 2)\<rparr>"
    using solve_swp_unknown_I_eq [of "1 / 12" 0 "(101 / 100) ^ 12 - 1" "1 / 2" "1 / 12" 1 0 100]
    unfolding monthly_one_percent
    by (simp add: req aL aM)
  have mi_eq: "solve_swp 1 (1 / 12) 0 ((101 / 100) ^ 12 - 1) (1 / 2) (Some (1 / 12)) None
      (Some 0) 100
     = Inr \<lparr>res_I = 0, res_Mi = 100 / 101, res_Ti = 1 / 12,
            corpus_at_retirement = spec_post_tax_corpus 0 (100 / 101) (1 / 100) (Suc 0) (1 / 2)\<rparr>"
    using solve_swp_unknown_Mi_eq [of "1 / 12" 0 "(101 / 100) ^ 12 - 1" "1 / 2" "1 / 12" 1 0 100]
    unfolding monthly_one_percent
    by (simp add: req aL aM)
  from main show ?thesis
    by (simp add: i_eq mi_eq req)
qed

text \<open>
  As first stated, for every admissible input, C2 fails: a monthly contribution that
  alone overshoots the requirement resolves \<open>I\<close> to a negative amount, the gain of the
  resolved triple is negative, no tax is taken on it, and the recomputed corpus
  (\<open>100 / 201\<close>) is not the required one (\<open>100 / 101\<close>). The annual return is \<open>1\<close>
  percent a month.
\<close>

theorem solve_swp_corpus_counterexample:
  "solve_swp 1 (1 / 12) 0 ((101 / 100) ^ 12 - 1) (1 / 2) (Some (1 / 12)) (Some 100) None 100
     = Inr \<lparr>res_I = - 2000000 / 20301, res_Mi = 100, res_Ti = 1 / 12,
            corpus_at_retirement = 100 / 201\<rparr>
   \<and> gross_monthly ((101 / 100) ^ 12 - 1) = Inr (1 / 100)
   \<and> corpus_needed_for_swp 1 (1 / 12) (1 / 12) 0 (1 / 100) = Inr (100 / 101)
   \<and> (100 / 201 :: real) < 100 / 101"
proof -
  have req: "spec_required_corpus 1 (1 / 12) (1 / 12) 0 (1 / 100) = 100 / 101"
    by (simp add: spec_required_corpus_def)
  have aL: "spec_A_L (1 / 2) (1 / 100) (Suc 0) = 201 / 200"
    by (simp add: spec_A_L_def)
  have aM: "spec_A_M (1 / 2) (1 / 100) (Suc 0) = 1"
    by (simp add: spec_A_M_def spec_annuity_factor_def)
  have corpus: "spec_post_tax_corpus (- (2000000 / 20301)) 100 (1 / 100) (Suc 0) (1 / 2) = 100 / 201"
    by (simp add: spec_post_tax_corpus_def spec_future_value_def)
  have "solve_swp 1 (1 / 12) 0 ((101 / 100) ^ 12 - 1) (1 / 2) (Some (1 / 12)) (Some 100) None 100
     = Inr \<lparr>res_I = - 2000000 / 20301, res_Mi = 100, res_Ti = 1 / 12,
            corpus_at_retirement = 100 / 201\<rparr>"
    using solve_swp_unknown_I_eq [of "1 / 12" 0 "(101 / 100) ^ 12 - 1" "1 / 2" "1 / 12" 1 100 100]
    unfolding monthly_one_percent
    by (simp add: req aL aM corpus)
  moreover have "gross_monthly ((101 / 100) ^ 12 - 1) = Inr (1 / 100)"
    using gross_monthly_pos [OF annual_gt] unfolding monthly_one_percent .
  moreover have "corpus_needed_for_swp 1 (1 / 12) (1 / 12) 0 (1 / 100) = Inr (100 / 101)"
    by (simp add: corpus_needed_for_swp_eq req)
  ultimately show ?thesis by simp
qed

text \<open>
  Claim C5, amended. Let \<open>Tw > 0\<close>, both annual rates above \<open>-1\<close>, \<open>tax_rate\<close> in
  \<open>[0, 1]\<close>, and \<open>Ti \<ge> 0\<close> with \<open>round (12 Ti) \<ge> 1\<close>. Solving for \<open>I\<close> from \<open>(Mi, Ti)\<close>
  and then for \<open>Mi\<close> from the \<open>I\<close> found and the same \<open>Ti\<close> returns the \<open>Mi\<close> started
  from; solving for \<open>Mi\<close> from \<open>(I, Ti)\<close> and then for \<open>I\<close> returns the \<open>I\<close> started from.
  On real numbers the values are equal.
\<close>

theorem solve_swp_round_trip:
  fixes A_today Mi I :: real
  assumes "0 < Tw" and "- 1 < inflation_rate" and "- 1 < annual_return"
    and "0 \<le> tax_rate" and "tax_rate \<le> 1" and "0 \<le> Ti"
    and "1 \<le> py_round (Ti * 12)"
  shows "(\<exists>res1 res2.
            solve_swp A_today Tw inflation_rate annual_return tax_rate
              (Some Ti) (Some Mi) None search_cap_years = Inr res1
          \<and> solve_swp A_today Tw inflation_rate annual_return tax_rate
              (Some Ti) None (Some (res_I res1)) search_cap_years = Inr res2
          \<and> res_Mi res2 = Mi)
       \<and> (\<exists>res1 res2.
            solve_swp A_today Tw inflation_rate annual_return tax_rate
              (Some Ti) None (Some I) search_cap_years = Inr res1
          \<and> solve_swp A_today Tw inflation_rate annual_return tax_rate
              (Some Ti) (Some (res_Mi res1)) None search_cap_years = Inr res2
          \<and> res_I res2 = I)"
proof -
  define r where "r = (1 + annual_return) powr (1 / 12) - 1"
  define n where "n = nat (py_round (Ti * 12))"
  define Cn where "Cn = spec_required_corpus A_today Ti Tw inflation_rate r"
  have r: "- 1 < r"
    using assms(3) by (simp add: r_def)
  have n1: "1 \<le> n"
    using assms(7) by (simp add: n_def)
  have aL: "spec_A_L tax_rate r n \<noteq> 0"
    using spec_A_L_pos [OF r assms(4,5), of n] by simp
  have aM: "spec_A_M tax_rate r n \<noteq> 0"
    using spec_A_M_pos [OF r assms(4,5) n1] by simp
  note solve_i = solve_swp_unknown_I_eq [OF assms(1-6), of A_today _ search_cap_years,
      folded r_def n_def, folded Cn_def]
  note solve_mi = solve_swp_unknown_Mi_eq [OF assms(1-6), of A_today _ search_cap_years,
      folded r_def n_def, folded Cn_def, OF n1]
  show ?thesis
    using aL aM by (simp add: solve_i solve_mi)
qed

theorem solve_swp_round_trip_witness:
  "solve_swp 1 (1 / 12) 0 ((101 / 100) ^ 12 - 1) (1 / 2) (Some (1 / 12)) (Some (1 / 2)) None 100
     = Inr \<lparr>res_I = 3300 / 6767, res_Mi = 1 / 2, res_Ti = 1 / 12,
            corpus_at_retirement = 100 / 101\<rparr>
   \<and> (\<exists>res2. solve_swp 1 (1 / 12) 0 ((101 / 100) ^ 12 - 1) (1 / 2) (Some (1 / 12)) None
                 (Some (3300 / 6767)) 100 = Inr res2
          \<and> res_Mi res2 = 1 / 2)"
proof -
  have req: "spec_required_corpus 1 (1 / 12) (1 / 12) 0 (1 / 100) = 100 / 101"
    by (simp add: spec_required_corpus_def)
  have aL: "spec_A_L (1 / 2) (1 / 100) (Suc 0) = 201 / 200"
    by (simp add: spec_A_L_def)
  have aM: "spec_A_M (1 / 2) (1 / 100) (Suc 0) = 1"
    by (simp add: spec_A_M_def spec_annuity_factor_def)
  have corpus: "spec_post_tax_corpus (3300 / 6767) (1 / 2) (1 / 100) (Suc 0) (1 / 2) = 100 / 101"
    by (simp add: spec_post_tax_corpus_def spec_future_value_def)
  have i_eq: "solve_swp 1 (1 / 12) 0 ((101 / 100) ^ 12 - 1) (1 / 2) (Some (1 / 12))
      (Some (1 / 2)) None 100
     = Inr \<lparr>res_I = 3300 / 6767, res_Mi = 1 / 2, res_Ti = 1 / 12,
            corpus_at_retirement = 100 / 101\<rparr>"
    using solve_swp_unknown_I_eq [of "1 / 12" 0 "(101 / 100) ^ 12 - 1" "1 / 2" "1 / 12" 1
        "1 / 2" 100]
    unfolding monthly_one_percent
    by (simp add: req aL aM corpus)
  from solve_swp_round_trip [where Tw = "1 / 12" and inflation_rate = 0
      and annual_return = "(101 / 100) ^ 12 - 1" and tax_rate = "1 / 2" and Ti = "1 / 12"
      and A_today = 1 and Mi = "1 / 2" and I = 0 and search_cap_years = 100]
  show ?thesis
    by (simp add: i_eq)
qed

text \<open>
  As first stated, for every \<open>Ti \<ge> 0\<close>, C5 fails at \<open>Ti = 0\<close>: the first solve returns
  \<open>I = 12\<close>, and the second one divides by \<open>A_M = 0\<close>. With no month of accumulation a
  monthly contribution has no effect on the corpus, so no \<open>Mi\<close> can be recovered.
\<close>

theorem solve_swp_round_trip_counterexample:
  "solve_swp 1 1 0 0 (1 / 2) (Some 0) (Some 5) None 100
     = Inr \<lparr>res_I = 12, res_Mi = 5, res_Ti = 0, corpus_at_retirement = 12\<rparr>
   \<and> solve_swp 1 1 0 0 (1 / 2) (Some 0) None (Some 12) 100 = Inl ZeroDivisionError"
proof -
  have "solve_swp 1 1 0 0 (1 / 2) (Some 0) (Some 5) None 100
     = Inr \<lparr>res_I = 12, res_Mi = 5, res_Ti = 0, corpus_at_retirement = 12\<rparr>"
    using solve_swp_unknown_I_eq [of 1 0 0 "1 / 2" 0 1 5 100]
    by (simp add: spec_required_corpus_def spec_A_L_def spec_post_tax_corpus_def
        spec_future_value_def)
  moreover have "solve_swp 1 1 0 0 (1 / 2) (Some 0) None (Some 12) 100 = Inl ZeroDivisionError"
    by (rule solve_swp_unknown_Mi_zero) simp_all
  ultimately show ?thesis by simp
qed

section \<open>Monotonicity\<close>

lemma spec_required_corpus_factor:
  "spec_required_corpus A Ti Tw infl r =
     A * (1 + infl) powr Ti * spec_withdrawal_factor infl r (nat (py_round (Tw * 12)))"
  by (simp add: spec_required_corpus_def spec_withdrawal_factor_def Let_def)

lemma spec_withdrawal_factor_zero [simp]: "spec_withdrawal_factor infl r 0 = 0"
  by (simp add: spec_withdrawal_factor_def Let_def)

lemma spec_withdrawal_factor_Suc:
  assumes "- 1 < infl" and "- 1 < r"
  shows "spec_withdrawal_factor infl r M < spec_withdrawal_factor infl r (Suc M)"
proof -
  define g where "g = (1 + infl) powr (1 / 12) - 1"
  define k where "k = (1 + g) / (1 + r)"
  have g: "0 < 1 + g" using assms(1) by (simp add: g_def)
  have r: "0 < 1 + r" using assms(2) by simp
  have k: "0 < k" using g r by (simp add: k_def)
  show ?thesis
  proof (cases "\<bar>r - g\<bar> < 1 / 10 ^ 12")
    case True
    have "real M / (1 + r) < real (Suc M) / (1 + r)"
      using r by (simp add: divide_strict_right_mono)
    then show ?thesis
      using True by (simp add: spec_withdrawal_factor_def g_def [symmetric])
  next
    case False
    then have ne: "r - g \<noteq> 0" by auto
    have one_k: "1 - k = (r - g) / (1 + r)"
      using r by (simp add: k_def field_simps)
    have "(1 - k ^ Suc M) - (1 - k ^ M) = k ^ M * (1 - k)"
      by (simp add: algebra_simps)
    then have d: "(1 - k ^ Suc M) - (1 - k ^ M) = k ^ M * ((r - g) / (1 + r))"
      by (simp only: one_k)
    have "(1 - k ^ Suc M) / (r - g) - (1 - k ^ M) / (r - g) =
        ((1 - k ^ Suc M) - (1 - k ^ M)) / (r - g)"
      by (simp only: diff_divide_distrib)
    also have "\<dots> = k ^ M * ((r - g) / (1 + r)) / (r - g)"
      by (simp only: d)
    also have "\<dots> = k ^ M / (1 + r)"
      using ne by simp
    finally have "(1 - k ^ Suc M) / (r - g) - (1 - k ^ M) / (r - g) = k ^ M / (1 + r)" .
    moreover have "0 < k ^ M / (1 + r)"
      using k r by simp
    ultimately have "(1 - k ^ M) / (r - g) < (1 - k ^ Suc M) / (r - g)"
      by linarith
    then show ?thesis
      using False by (simp add: spec_withdrawal_factor_def g_def [symmetric] k_def)
  qed
qed

lemma spec_withdrawal_factor_strict_mono:
  assumes "- 1 < infl" and "- 1 < r" and "M < M'"
  shows "spec_withdrawal_factor infl r M < spec_withdrawal_factor infl r M'"
  using spec_withdrawal_factor_Suc [OF assms(1,2)] assms(3)
  by (intro lift_Suc_mono_less [of "spec_withdrawal_factor infl r" M M']) simp_all

lemma spec_withdrawal_factor_mono:
  assumes "- 1 < infl" and "- 1 < r" and "M \<le> M'"
  shows "spec_withdrawal_factor infl r M \<le> spec_withdrawal_factor infl r M'"
  using spec_withdrawal_factor_strict_mono [OF assms(1,2), of M M'] assms(3)
  by (cases "M = M'") simp_all

lemma spec_withdrawal_factor_pos:
  assumes "- 1 < infl" and "- 1 < r" and "1 \<le> M"
  shows "0 < spec_withdrawal_factor infl r M"
  using spec_withdrawal_factor_strict_mono [OF assms(1,2), of 0 M] assms(3) by simp

lemma months_nat_mono:
  "nat (py_round (Tw * 12)) \<le> nat (py_round (Tw' * 12))" if "Tw \<le> Tw'"
  using that by (intro nat_mono py_round_mono) simp

lemma required_corpus_strict_in_A:
  assumes "- 1 < infl" and "- 1 < r" and "1 \<le> py_round (Tw * 12)" and "A < A'"
  shows "spec_required_corpus A Ti Tw infl r < spec_required_corpus A' Ti Tw infl r"
proof -
  have f: "0 < spec_withdrawal_factor infl r (nat (py_round (Tw * 12)))"
    using assms(1,2,3) by (intro spec_withdrawal_factor_pos) simp_all
  have p: "0 < (1 + infl) powr Ti" using assms(1) by simp
  have "A * (1 + infl) powr Ti < A' * (1 + infl) powr Ti"
    using assms(4) p by (simp add: mult_strict_right_mono)
  then show ?thesis
    using f by (simp add: spec_required_corpus_factor mult_strict_right_mono)
qed

lemma required_corpus_strict_in_Ti:
  assumes "0 < infl" and "- 1 < r" and "1 \<le> py_round (Tw * 12)" and "0 < A" and "Ti < Ti'"
  shows "spec_required_corpus A Ti Tw infl r < spec_required_corpus A Ti' Tw infl r"
proof -
  have f: "0 < spec_withdrawal_factor infl r (nat (py_round (Tw * 12)))"
    using assms(1,2,3) by (intro spec_withdrawal_factor_pos) simp_all
  have "(1 + infl) powr Ti < (1 + infl) powr Ti'"
    using assms(1,5) by (intro powr_less_mono) simp_all
  then have "A * (1 + infl) powr Ti < A * (1 + infl) powr Ti'"
    using assms(4) by (simp add: mult_strict_left_mono)
  then show ?thesis
    using f by (simp add: spec_required_corpus_factor mult_strict_right_mono)
qed

lemma required_corpus_mono_in_Tw:
  assumes "- 1 < infl" and "- 1 < r" and "0 \<le> A" and "Tw \<le> Tw'"
  shows "spec_required_corpus A Ti Tw infl r \<le> spec_required_corpus A Ti Tw' infl r"
proof -
  have "spec_withdrawal_factor infl r (nat (py_round (Tw * 12)))
      \<le> spec_withdrawal_factor infl r (nat (py_round (Tw' * 12)))"
    using assms(1,2) months_nat_mono [OF assms(4)] by (intro spec_withdrawal_factor_mono)
  moreover have "0 \<le> A * (1 + infl) powr Ti" using assms(3) by simp
  ultimately show ?thesis
    unfolding spec_required_corpus_factor by (rule mult_left_mono)
qed

lemma required_corpus_strict_in_months:
  assumes "- 1 < infl" and "- 1 < r" and "0 < A"
    and "0 \<le> py_round (Tw * 12)" and "py_round (Tw * 12) < py_round (Tw' * 12)"
  shows "spec_required_corpus A Ti Tw infl r < spec_required_corpus A Ti Tw' infl r"
proof -
  have "spec_withdrawal_factor infl r (nat (py_round (Tw * 12)))
      < spec_withdrawal_factor infl r (nat (py_round (Tw' * 12)))"
    using assms(1,2,4,5) by (intro spec_withdrawal_factor_strict_mono) simp_all
  moreover have "0 < A * (1 + infl) powr Ti" using assms(1,3) by simp
  ultimately show ?thesis
    unfolding spec_required_corpus_factor by (rule mult_strict_left_mono)
qed

lemma spec_annuity_factor_nonneg:
  assumes "- 1 < r"
  shows "0 \<le> spec_annuity_factor r n"
proof (cases "1 \<le> n")
  case True
  then show ?thesis using spec_annuity_factor_pos [OF assms, of n] by simp
next
  case False
  then have "n = 0" by simp
  then show ?thesis by (simp add: spec_annuity_factor_def)
qed

text \<open>The post-tax corpus is the smaller of the untaxed and the taxed future value.\<close>

lemma spec_post_tax_corpus_min:
  assumes "0 \<le> tax"
  shows "spec_post_tax_corpus L M r n tax =
           min (spec_future_value L M r n)
               ((1 - tax) * spec_future_value L M r n + tax * (L + M * of_nat n))"
proof -
  define fv where "fv = spec_future_value L M r n"
  define b where "b = L + M * of_nat n"
  have "fv - tax * max (fv - b) 0 = min fv ((1 - tax) * fv + tax * b)"
  proof (cases "0 \<le> fv - b")
    case True
    then have "0 \<le> tax * (fv - b)" using assms by simp
    then show ?thesis using True by (simp add: max_def min_def algebra_simps)
  next
    case False
    then have "tax * (fv - b) \<le> 0" using assms by (simp add: mult_nonneg_nonpos)
    then show ?thesis using False by (simp add: max_def min_def algebra_simps)
  qed
  then show ?thesis
    by (simp add: spec_post_tax_corpus_def Let_def fv_def b_def)
qed

lemma post_tax_corpus_mono_in_L:
  assumes "- 1 < r" and "0 \<le> tax" and "tax \<le> 1" and "L \<le> L'"
  shows "spec_post_tax_corpus L M r n tax \<le> spec_post_tax_corpus L' M r n tax"
proof -
  have "0 \<le> (1 + r) ^ n" using assms(1) by simp
  then have fv: "spec_future_value L M r n \<le> spec_future_value L' M r n"
    using assms(4) by (simp add: spec_future_value_linear mult_right_mono)
  have "(1 - tax) * spec_future_value L M r n \<le> (1 - tax) * spec_future_value L' M r n"
    using fv assms(3) by (intro mult_left_mono) simp_all
  moreover have "tax * (L + M * of_nat n) \<le> tax * (L' + M * of_nat n)"
    using assms(2,4) by (intro mult_left_mono) simp_all
  ultimately show ?thesis
    using fv by (simp add: spec_post_tax_corpus_min [OF assms(2)] min_def)
qed

lemma post_tax_corpus_mono_in_M:
  assumes "- 1 < r" and "0 \<le> tax" and "tax \<le> 1" and "M \<le> M'"
  shows "spec_post_tax_corpus L M r n tax \<le> spec_post_tax_corpus L M' r n tax"
proof -
  have "M * spec_annuity_factor r n \<le> M' * spec_annuity_factor r n"
    using assms(4) spec_annuity_factor_nonneg [OF assms(1), of n] by (intro mult_right_mono)
  then have fv: "spec_future_value L M r n \<le> spec_future_value L M' r n"
    by (simp add: spec_future_value_linear)
  have "(1 - tax) * spec_future_value L M r n \<le> (1 - tax) * spec_future_value L M' r n"
    using fv assms(3) by (intro mult_left_mono) simp_all
  moreover have "M * real n \<le> M' * real n"
    using assms(4) by (intro mult_right_mono) simp_all
  then have "tax * (L + M * of_nat n) \<le> tax * (L + M' * of_nat n)"
    using assms(2) by (intro mult_left_mono) simp_all
  ultimately show ?thesis
    using fv by (simp add: spec_post_tax_corpus_min [OF assms(2)] min_def)
qed

lemma needed_eq:
  assumes "- 1 < infl" and "- 1 < r" and "0 < Tw"
  shows "corpus_needed_for_swp A Ti Tw infl r = Inr (spec_required_corpus A Ti Tw infl r)"
proof -
  have "0 \<le> py_round (Tw * 12)"
    using assms(3) by (intro py_round_nonneg) simp
  then show ?thesis
    using assms(1,2) by (simp add: corpus_needed_for_swp_eq)
qed

text \<open>
  Claim C4, amended. Let \<open>inflation_rate > 0\<close>, \<open>r_month > -1\<close> and \<open>Tw > 0\<close>. The
  corpus-requirement engine is strictly increasing in \<open>A_today\<close>, and for \<open>A_today > 0\<close>
  in \<open>Ti\<close>, when the withdrawal lasts at least one month (\<open>round (12 Tw) \<ge> 1\<close>). For
  \<open>A_today > 0\<close> it is non-decreasing in \<open>Tw\<close>, and strictly increasing between two
  horizons whose month counts \<open>round (12 Tw)\<close> differ. For \<open>n \<ge> 0\<close> and a tax rate in
  \<open>[0, 1]\<close> the post-tax corpus engine is non-decreasing in \<open>L\<close> and in \<open>M\<close>.
\<close>

theorem engines_monotone:
  assumes "0 < inflation_rate" and "- 1 < r_month" and "0 < Tw"
  shows "(A < A' \<and> 1 \<le> py_round (Tw * 12) \<longrightarrow>
            (\<exists>c c'. corpus_needed_for_swp A Ti Tw inflation_rate r_month = Inr c
                  \<and> corpus_needed_for_swp A' Ti Tw inflation_rate r_month = Inr c'
                  \<and> c < c'))
       \<and> (0 < A \<and> Ti < Ti' \<and> 1 \<le> py_round (Tw * 12) \<longrightarrow>
            (\<exists>c c'. corpus_needed_for_swp A Ti Tw inflation_rate r_month = Inr c
                  \<and> corpus_needed_for_swp A Ti' Tw inflation_rate r_month = Inr c'
                  \<and> c < c'))
       \<and> (0 < A \<and> Tw \<le> Tw' \<longrightarrow>
            (\<exists>c c'. corpus_needed_for_swp A Ti Tw inflation_rate r_month = Inr c
                  \<and> corpus_needed_for_swp A Ti Tw' inflation_rate r_month = Inr c'
                  \<and> c \<le> c'
                  \<and> (py_round (Tw * 12) < py_round (Tw' * 12) \<longrightarrow> c < c')))
       \<and> (0 \<le> n \<and> 0 \<le> tax \<and> tax \<le> 1 \<and> L \<le> L' \<longrightarrow>
            (\<exists>c c'. corpus_after_tax L M r_month n tax = Inr c
                  \<and> corpus_after_tax L' M r_month n tax = Inr c'
                  \<and> c \<le> c'))
       \<and> (0 \<le> n \<and> 0 \<le> tax \<and> tax \<le> 1 \<and> M \<le> M' \<longrightarrow>
            (\<exists>c c'. corpus_after_tax L M r_month n tax = Inr c
                  \<and> corpus_after_tax L M' r_month n tax = Inr c'
                  \<and> c \<le> c'))"
proof -
  have infl: "- 1 < inflation_rate" using assms(1) by simp
  note need = needed_eq [OF infl assms(2)]
  have months: "0 \<le> py_round (Tw * 12)"
    using assms(3) by (intro py_round_nonneg) simp
  have in_A: "spec_required_corpus A Ti Tw inflation_rate r_month
      < spec_required_corpus A' Ti Tw inflation_rate r_month"
    if "A < A' \<and> 1 \<le> py_round (Tw * 12)"
    using that by (intro required_corpus_strict_in_A infl assms(2)) simp_all
  have in_Ti: "spec_required_corpus A Ti Tw inflation_rate r_month
      < spec_required_corpus A Ti' Tw inflation_rate r_month"
    if "0 < A \<and> Ti < Ti' \<and> 1 \<le> py_round (Tw * 12)"
    using that by (intro required_corpus_strict_in_Ti assms(1,2)) simp_all
  have in_Tw: "spec_required_corpus A Ti Tw inflation_rate r_month
      \<le> spec_required_corpus A Ti Tw' inflation_rate r_month"
    if "0 < A \<and> Tw \<le> Tw'"
    using that by (intro required_corpus_mono_in_Tw infl assms(2)) simp_all
  have in_months: "spec_required_corpus A Ti Tw inflation_rate r_month
      < spec_required_corpus A Ti Tw' inflation_rate r_month"
    if "0 < A \<and> Tw \<le> Tw'" and "py_round (Tw * 12) < py_round (Tw' * 12)"
    using that months by (intro required_corpus_strict_in_months infl assms(2)) simp_all
  have Tw': "0 < Tw'" if "Tw \<le> Tw'"
    using that assms(3) by simp
  have in_L: "spec_post_tax_corpus L M r_month (nat n) tax
      \<le> spec_post_tax_corpus L' M r_month (nat n) tax"
    if "0 \<le> n \<and> 0 \<le> tax \<and> tax \<le> 1 \<and> L \<le> L'"
    using that by (intro post_tax_corpus_mono_in_L assms(2)) simp_all
  have in_M: "spec_post_tax_corpus L M r_month (nat n) tax
      \<le> spec_post_tax_corpus L M' r_month (nat n) tax"
    if "0 \<le> n \<and> 0 \<le> tax \<and> tax \<le> 1 \<and> M \<le> M'"
    using that by (intro post_tax_corpus_mono_in_M assms(2)) simp_all
  show ?thesis
    using in_A in_Ti in_Tw in_months in_L in_M Tw'
    by (simp add: need [OF assms(3)] need corpus_after_tax_eq)
qed

theorem engines_monotone_witness:
  "(\<exists>c c'. corpus_needed_for_swp 1 0 1 ((101 / 100) ^ 12 - 1) (3 / 200) = Inr c
         \<and> corpus_needed_for_swp 2 0 1 ((101 / 100) ^ 12 - 1) (3 / 200) = Inr c'
         \<and> c < c')
   \<and> (\<exists>c c'. corpus_needed_for_swp 1 0 1 ((101 / 100) ^ 12 - 1) (3 / 200) = Inr c
         \<and> corpus_needed_for_swp 1 5 1 ((101 / 100) ^ 12 - 1) (3 / 200) = Inr c'
         \<and> c < c')
   \<and> (\<exists>c c'. corpus_needed_for_swp 1 0 1 ((101 / 100) ^ 12 - 1) (3 / 200) = Inr c
         \<and> corpus_needed_for_swp 1 0 2 ((101 / 100) ^ 12 - 1) (3 / 200) = Inr c'
         \<and> c < c')
   \<and> (\<exists>c c'. corpus_after_tax 1000 100 (3 / 200) 24 (1 / 8) = Inr c
         \<and> corpus_after_tax 2000 100 (3 / 200) 24 (1 / 8) = Inr c'
         \<and> c \<le> c')
   \<and> (\<exists>c c'. corpus_after_tax 1000 100 (3 / 200) 24 (1 / 8) = Inr c
         \<and> corpus_after_tax 1000 200 (3 / 200) 24 (1 / 8) = Inr c'
         \<and> c \<le> c')"
  using engines_monotone [where inflation_rate = "(101 / 100) ^ 12 - 1" and r_month = "3 / 200"
      and Tw = 1 and Tw' = 2 and A = 1 and A' = 2 and Ti = 0 and Ti' = 5 and n = 24
      and tax = "1 / 8" and L = 1000 and L' = 2000 and M = 100 and M' = 200]
  by simp blast

text \<open>
  As first stated, C4 fails: the engine rounds \<open>Tw\<close> to whole months, so the horizons
  \<open>1\<close> and \<open>1.01\<close> years (both \<open>12\<close> months) need the same corpus; and a horizon that
  rounds to \<open>0\<close> months needs the corpus \<open>0\<close> whatever \<open>A_today\<close> and \<open>Ti\<close> are. The
  inflation rate is \<open>1\<close> percent a month.
\<close>

theorem needed_corpus_not_strict:
  "corpus_needed_for_swp 1 0 1 ((101 / 100) ^ 12 - 1) (3 / 200)
     = Inr (200 * (1 - (202 / 203) ^ 12))
   \<and> corpus_needed_for_swp 1 0 (101 / 100) ((101 / 100) ^ 12 - 1) (3 / 200)
     = Inr (200 * (1 - (202 / 203) ^ 12))
   \<and> corpus_needed_for_swp 1 0 (1 / 100) ((101 / 100) ^ 12 - 1) (3 / 200) = Inr 0
   \<and> corpus_needed_for_swp 2 0 (1 / 100) ((101 / 100) ^ 12 - 1) (3 / 200) = Inr 0
   \<and> corpus_needed_for_swp 1 5 (1 / 100) ((101 / 100) ^ 12 - 1) (3 / 200) = Inr 0"
proof -
  have r12: "py_round (101 / 100 * 12) = 12" and r0: "py_round (1 / 100 * 12) = 0"
    by (simp_all add: py_round_def)
  have infl: "- 1 < ((101 / 100) ^ 12 - 1 :: real)" by simp
  have year: "spec_required_corpus 1 0 Tw ((101 / 100) ^ 12 - 1) (3 / 200)
      = 200 * (1 - (202 / 203) ^ 12)" if "py_round (Tw * 12) = 12" for Tw
    unfolding spec_required_corpus_def monthly_one_percent that
    by simp
  have none: "spec_required_corpus A Ti (1 / 100) ((101 / 100) ^ 12 - 1) (3 / 200) = 0" for A Ti
    unfolding spec_required_corpus_def monthly_one_percent r0
    by simp
  show ?thesis
    using year [of 1] year [OF r12] none infl
    by (simp add: needed_eq)
qed

end
